theory Spec2Isabelle
  imports Main
begin

section \<open>Inbound audio stream: settings, ring buffer and stream state\<close>

text \<open>
  The development follows \<^verbatim>\<open>libraries/audio/src/InboundAudioStream.h\<close>. The header
  defines the \<^verbatim>\<open>Settings\<close> class with its two constructors, the members of
  \<^verbatim>\<open>InboundAudioStream\<close>, and the inline setters and getters. C++ \<^verbatim>\<open>int\<close> members are
  modelled as \<open>int\<close>: signed overflow is undefined in C++, and nothing below computes near
  the limits of the type. Member names lose their leading underscore.
\<close>

subsection \<open>Constants of the header\<close>

definition DESIRED_JITTER_BUFFER_FRAMES_PADDING :: int where
  "DESIRED_JITTER_BUFFER_FRAMES_PADDING = 1"

definition DEFAULT_MAX_FRAMES_OVER_DESIRED :: int where
  "DEFAULT_MAX_FRAMES_OVER_DESIRED = 10"

definition DEFAULT_DYNAMIC_JITTER_BUFFERS :: bool where
  "DEFAULT_DYNAMIC_JITTER_BUFFERS = True"

definition DEFAULT_STATIC_DESIRED_JITTER_BUFFER_FRAMES :: int where
  "DEFAULT_STATIC_DESIRED_JITTER_BUFFER_FRAMES = 1"

definition DEFAULT_USE_STDEV_FOR_JITTER_CALC :: bool where
  "DEFAULT_USE_STDEV_FOR_JITTER_CALC = False"

definition DEFAULT_WINDOW_STARVE_THRESHOLD :: int where
  "DEFAULT_WINDOW_STARVE_THRESHOLD = 3"

definition DEFAULT_WINDOW_SECONDS_FOR_DESIRED_CALC_ON_TOO_MANY_STARVES :: int where
  "DEFAULT_WINDOW_SECONDS_FOR_DESIRED_CALC_ON_TOO_MANY_STARVES = 50"

definition DEFAULT_WINDOW_SECONDS_FOR_DESIRED_REDUCTION :: int where
  "DEFAULT_WINDOW_SECONDS_FOR_DESIRED_REDUCTION = 10"

subsection \<open>The Settings class\<close>

record Settings =
  maxFramesOverDesired :: int
  dynamicJitterBuffers :: bool
  staticDesiredJitterBufferFrames :: int
  useStDevForJitterCalc :: bool
  windowStarveThreshold :: int
  windowSecondsForDesiredCalcOnTooManyStarves :: int
  windowSecondsForDesiredReduction :: int

text \<open>The default constructor \<^verbatim>\<open>Settings()\<close>.\<close>

definition Settings_0 :: Settings where
  "Settings_0 =
     \<lparr> maxFramesOverDesired = DEFAULT_MAX_FRAMES_OVER_DESIRED,
       dynamicJitterBuffers = DEFAULT_DYNAMIC_JITTER_BUFFERS,
       staticDesiredJitterBufferFrames = DEFAULT_STATIC_DESIRED_JITTER_BUFFER_FRAMES,
       useStDevForJitterCalc = DEFAULT_USE_STDEV_FOR_JITTER_CALC,
       windowStarveThreshold = DEFAULT_WINDOW_STARVE_THRESHOLD,
       windowSecondsForDesiredCalcOnTooManyStarves =
         DEFAULT_WINDOW_SECONDS_FOR_DESIRED_CALC_ON_TOO_MANY_STARVES,
       windowSecondsForDesiredReduction = DEFAULT_WINDOW_SECONDS_FOR_DESIRED_REDUCTION \<rparr>"

text \<open>
  The constructor with seven parameters. Its last parameter is itself called
  \<^verbatim>\<open>_windowSecondsForDesiredReduction\<close>; the member initialiser of that name is written
  with \<^verbatim>\<open>windowSecondsForDesiredCalcOnTooManyStarves\<close>, the sixth parameter.
\<close>

definition Settings_7 :: "int \<Rightarrow> bool \<Rightarrow> int \<Rightarrow> bool \<Rightarrow> int \<Rightarrow> int \<Rightarrow> int \<Rightarrow> Settings" where
  "Settings_7 maxFramesOverDesired' dynamicJitterBuffers' staticDesiredJitterBufferFrames'
       useStDevForJitterCalc' windowStarveThreshold'
       windowSecondsForDesiredCalcOnTooManyStarves' windowSecondsForDesiredReduction' =
     \<lparr> maxFramesOverDesired = maxFramesOverDesired',
       dynamicJitterBuffers = dynamicJitterBuffers',
       staticDesiredJitterBufferFrames = staticDesiredJitterBufferFrames',
       useStDevForJitterCalc = useStDevForJitterCalc',
       windowStarveThreshold = windowStarveThreshold',
       windowSecondsForDesiredCalcOnTooManyStarves = windowSecondsForDesiredCalcOnTooManyStarves',
       windowSecondsForDesiredReduction = windowSecondsForDesiredCalcOnTooManyStarves' \<rparr>"

subsection \<open>The ring buffer\<close>

datatype error = DivideByZero | InvalidConfiguration

text \<open>
  Modelled from the spec: \<^verbatim>\<open>AudioRingBuffer.h\<close> is included by the header but is not among
  the sources at hand. The spec describes the ring as a circular store of
  \<open>frameCapacity \<times> frameSampleCount\<close> samples with a write cursor, a read cursor and an
  overflow count. The cursors are kept here as positions in the sample stream (the number
  of samples written, and the number consumed or overwritten, since the last clear); the
  slot of the circular store that a cursor addresses is the cursor modulo the capacity in
  samples. The samples themselves are not part of the model.
\<close>

record AudioRingBuffer =
  numFrameSamples :: nat
  frameCapacity :: nat
  readCursor :: nat
  writeCursor :: nat
  overflowCount :: nat

text \<open>Modelled from the spec: the capacity of the ring and its content, in samples.\<close>

definition sampleCapacity :: "AudioRingBuffer \<Rightarrow> nat" where
  "sampleCapacity r = frameCapacity r * numFrameSamples r"

definition samplesAvailable :: "AudioRingBuffer \<Rightarrow> nat" where
  "samplesAvailable r = writeCursor r - readCursor r"

text \<open>
  Modelled from the spec: the number of whole frames in the ring. The division by the
  frame size is the operation a ring with \<open>frameSampleCount < 1\<close> cannot perform, so it is
  the error branch here.
\<close>

definition framesAvailable :: "AudioRingBuffer \<Rightarrow> error + int" where
  "framesAvailable r =
     (if numFrameSamples r = 0 then Inl DivideByZero
      else Inr (int (samplesAvailable r div numFrameSamples r)))"

text \<open>
  Modelled from the spec: (4.1) ``on write overflow, advance read cursor by the overflowed
  sample count, increment overflow, and write''. \<open>writeSilent\<close> moves the cursors in the
  same way, so one function stands for both.
\<close>

definition writeSamples :: "nat \<Rightarrow> AudioRingBuffer \<Rightarrow> AudioRingBuffer" where
  "writeSamples n r =
     (if sampleCapacity r < samplesAvailable r + n
      then r\<lparr> readCursor := readCursor r + (samplesAvailable r + n - sampleCapacity r),
              overflowCount := overflowCount r + 1,
              writeCursor := writeCursor r + n \<rparr>
      else r\<lparr> writeCursor := writeCursor r + n \<rparr>)"

text \<open>Modelled from the spec: moving the read cursor past \<open>n\<close> samples (a pop or a drop).\<close>

definition shiftReadPosition :: "nat \<Rightarrow> AudioRingBuffer \<Rightarrow> AudioRingBuffer" where
  "shiftReadPosition n r = r\<lparr> readCursor := readCursor r + n \<rparr>"

text \<open>Modelled from the spec: dropping every sample in the ring.\<close>

definition clear :: "AudioRingBuffer \<Rightarrow> AudioRingBuffer" where
  "clear r = r\<lparr> readCursor := writeCursor r \<rparr>"

subsection \<open>The stream\<close>

text \<open>
  Modelled from the spec: \<^verbatim>\<open>SequenceNumberStats.h\<close> is not among the sources; the spec
  lists the counters the tracker keeps.
\<close>

record SequenceNumberStats =
  received :: int
  unreasonable :: int
  early :: int
  late :: int
  lost :: int
  duplicate :: int

text \<open>
  The members of \<^verbatim>\<open>InboundAudioStream\<close>, in the order of the header. \<open>lastPopOutput\<close> (a
  ring iterator in the source) is the read position of the last pop; the time stamps
  (\<^verbatim>\<open>quint64\<close> microseconds) are naturals; the starve history is the list of starve time
  stamps, newest first. The five statistics aggregators of the class
  (\<^verbatim>\<open>MovingMinMaxAvg\<close>, \<^verbatim>\<open>StDev\<close>, \<^verbatim>\<open>TimeWeightedAvg\<close> members) have their classes declared in
  headers that are not among the sources; they are not fields of the record. The inline
  setters and getters of the header are defined on the record scheme, so that what is
  proved of them holds for a stream with any further members.
\<close>

record InboundAudioStream =
  ringBuffer :: AudioRingBuffer
  lastPopSucceeded :: bool
  lastPopOutput :: nat
  dynamicJitterBuffers :: bool
  staticDesiredJitterBufferFrames :: int
  useStDevForJitterCalc :: bool
  desiredJitterBufferFrames :: int
  maxFramesOverDesired :: int
  isStarved :: bool
  hasStarted :: bool
  consecutiveNotMixedCount :: int
  starveCount :: int
  silentFramesDropped :: int
  oldFramesDropped :: int
  incomingSequenceNumberStats :: SequenceNumberStats
  lastPacketReceivedTime :: nat
  calculatedJitterBufferFramesUsingMaxGap :: int
  calculatedJitterBufferFramesUsingStDev :: int
  starveHistoryWindowSeconds :: int
  starveHistory :: "nat list"
  starveThreshold :: int
  currentJitterBufferFrames :: int

subsection \<open>Inline setters of the header\<close>

definition setMaxFramesOverDesired ::
  "int \<Rightarrow> 'z InboundAudioStream_scheme \<Rightarrow> 'z InboundAudioStream_scheme" where
  "setMaxFramesOverDesired maxFramesOverDesired' s =
     s\<lparr> maxFramesOverDesired := maxFramesOverDesired' \<rparr>"

definition setUseStDevForJitterCalc ::
  "bool \<Rightarrow> 'z InboundAudioStream_scheme \<Rightarrow> 'z InboundAudioStream_scheme" where
  "setUseStDevForJitterCalc useStDevForJitterCalc' s =
     s\<lparr> useStDevForJitterCalc := useStDevForJitterCalc' \<rparr>"

definition setWindowStarveThreshold ::
  "int \<Rightarrow> 'z InboundAudioStream_scheme \<Rightarrow> 'z InboundAudioStream_scheme" where
  "setWindowStarveThreshold windowStarveThreshold' s =
     s\<lparr> starveThreshold := windowStarveThreshold' \<rparr>"

subsection \<open>Inline getters of the header\<close>

definition getCalculatedJitterBufferFrames :: "'z InboundAudioStream_scheme \<Rightarrow> int" where
  "getCalculatedJitterBufferFrames s =
     (if useStDevForJitterCalc s then calculatedJitterBufferFramesUsingStDev s
      else calculatedJitterBufferFramesUsingMaxGap s)"

definition getCalculatedJitterBufferFramesUsingStDev :: "'z InboundAudioStream_scheme \<Rightarrow> int" where
  "getCalculatedJitterBufferFramesUsingStDev s = calculatedJitterBufferFramesUsingStDev s"

definition getCalculatedJitterBufferFramesUsingMaxGap :: "'z InboundAudioStream_scheme \<Rightarrow> int" where
  "getCalculatedJitterBufferFramesUsingMaxGap s = calculatedJitterBufferFramesUsingMaxGap s"

definition getDesiredJitterBufferFrames :: "'z InboundAudioStream_scheme \<Rightarrow> int" where
  "getDesiredJitterBufferFrames s = desiredJitterBufferFrames s"

definition getMaxFramesOverDesired :: "'z InboundAudioStream_scheme \<Rightarrow> int" where
  "getMaxFramesOverDesired s = maxFramesOverDesired s"

definition getNumFrameSamples :: "'z InboundAudioStream_scheme \<Rightarrow> int" where
  "getNumFrameSamples s = int (numFrameSamples (ringBuffer s))"

definition getFrameCapacity :: "'z InboundAudioStream_scheme \<Rightarrow> int" where
  "getFrameCapacity s = int (frameCapacity (ringBuffer s))"

definition getFramesAvailable :: "'z InboundAudioStream_scheme \<Rightarrow> error + int" where
  "getFramesAvailable s = framesAvailable (ringBuffer s)"

definition getConsecutiveNotMixedCount :: "'z InboundAudioStream_scheme \<Rightarrow> int" where
  "getConsecutiveNotMixedCount s = consecutiveNotMixedCount s"

definition getStarveCount :: "'z InboundAudioStream_scheme \<Rightarrow> int" where
  "getStarveCount s = starveCount s"

definition getSilentFramesDropped :: "'z InboundAudioStream_scheme \<Rightarrow> int" where
  "getSilentFramesDropped s = silentFramesDropped s"

definition getOverflowCount :: "'z InboundAudioStream_scheme \<Rightarrow> int" where
  "getOverflowCount s = int (overflowCount (ringBuffer s))"

definition getPacketsReceived :: "'z InboundAudioStream_scheme \<Rightarrow> int" where
  "getPacketsReceived s = received (incomingSequenceNumberStats s)"

subsection \<open>Construction\<close>

text \<open>
  Modelled from the spec: the header declares the constructor
  \<^verbatim>\<open>InboundAudioStream(int numFrameSamples, int numFramesCapacity, const Settings&)\<close>; its
  body is in the implementation file, which is not among the sources. The spec makes
  \<open>frameCapacity < 1\<close> and \<open>frameSampleCount < 1\<close> the one fatal condition, which must fail
  stream creation. The settings are copied into the members of the same names (the starve
  window and threshold into \<open>starveHistoryWindowSeconds\<close> and \<open>starveThreshold\<close>), the ring
  starts empty and the counters at zero. With dynamic jitter buffers off,
  \<open>desiredFrames\<close> starts at the static value: the header says of \<open>_dynamicJitterBuffers\<close>
  that ``if false, \<open>_desiredJitterBufferFrames\<close> will always be
  \<open>_staticDesiredJitterBufferFrames\<close>'', and of the per-second callback that it is not
  necessary to call it when dynamic jitter buffers is disabled. The spec gives no initial
  value for \<open>desiredFrames\<close> in dynamic mode, for the estimator outputs and for
  \<open>currentJitterBufferFrames\<close>; they start at zero here.
\<close>

definition InboundAudioStream_ctor :: "int \<Rightarrow> int \<Rightarrow> Settings \<Rightarrow> error + InboundAudioStream" where
  "InboundAudioStream_ctor numFrameSamples' numFramesCapacity settings =
     (if numFramesCapacity < 1 \<or> numFrameSamples' < 1 then Inl InvalidConfiguration
      else Inr
        \<lparr> ringBuffer =
            \<lparr> numFrameSamples = nat numFrameSamples', frameCapacity = nat numFramesCapacity,
              readCursor = 0, writeCursor = 0, overflowCount = 0 \<rparr>,
          lastPopSucceeded = False,
          lastPopOutput = 0,
          dynamicJitterBuffers = Settings.dynamicJitterBuffers settings,
          staticDesiredJitterBufferFrames = Settings.staticDesiredJitterBufferFrames settings,
          useStDevForJitterCalc = Settings.useStDevForJitterCalc settings,
          desiredJitterBufferFrames =
            (if Settings.dynamicJitterBuffers settings then 0
             else Settings.staticDesiredJitterBufferFrames settings),
          maxFramesOverDesired = Settings.maxFramesOverDesired settings,
          isStarved = False,
          hasStarted = False,
          consecutiveNotMixedCount = 0,
          starveCount = 0,
          silentFramesDropped = 0,
          oldFramesDropped = 0,
          incomingSequenceNumberStats =
            \<lparr> received = 0, unreasonable = 0, early = 0, late = 0, lost = 0, duplicate = 0 \<rparr>,
          lastPacketReceivedTime = 0,
          calculatedJitterBufferFramesUsingMaxGap = 0,
          calculatedJitterBufferFramesUsingStDev = 0,
          starveHistoryWindowSeconds = windowSecondsForDesiredCalcOnTooManyStarves settings,
          starveHistory = [],
          starveThreshold = windowStarveThreshold settings,
          currentJitterBufferFrames = 0 \<rparr>)"

subsection \<open>Depth policy\<close>

text \<open>
  Modelled from the spec: \<^verbatim>\<open>clampDesiredJitterBufferFramesValue\<close> is declared in the header
  and defined in the implementation file. The spec clamps to
  \<open>[0, frameCapacity - maxFramesOverDesired]\<close>; the lower bound is applied first and the
  upper bound last, which only matters when the interval is empty.
\<close>

definition clampDesiredJitterBufferFramesValue :: "int \<Rightarrow> 'z InboundAudioStream_scheme \<Rightarrow> int" where
  "clampDesiredJitterBufferFramesValue desired s =
     min (getFrameCapacity s - maxFramesOverDesired s) (max 0 desired)"

text \<open>
  Modelled from the spec: \<^verbatim>\<open>USECS_PER_SECOND\<close> is used by the header and defined outside the
  sources; the spec gives \<open>2 * USECS_PER_SECOND\<close> as 2,000,000.
\<close>

definition USECS_PER_SECOND :: int where
  "USECS_PER_SECOND = 1000000"

text \<open>
  Modelled from the spec: (4.4) the number of starves in the starve history that lie
  within the window of \<open>starveHistoryWindowSeconds\<close> seconds before \<open>now\<close>, and the
  too-many-starves mode, in which that number has reached the starve threshold.
\<close>

definition countOfStarvesInWindow :: "nat \<Rightarrow> InboundAudioStream \<Rightarrow> int" where
  "countOfStarvesInWindow now s =
     int (length (filter (\<lambda>t. int now - int t \<le> starveHistoryWindowSeconds s * USECS_PER_SECOND)
                    (starveHistory s)))"

definition tooManyStarves :: "nat \<Rightarrow> InboundAudioStream \<Rightarrow> bool" where
  "tooManyStarves now s = (starveThreshold s \<le> countOfStarvesInWindow now s)"

text \<open>
  Modelled from the spec: (4.5) the depth policy, rules 1 to 5 in order. In rule 1 the
  static value is stored as it is: the spec writes \<open>clamp(staticDesiredJitterBufferFrames)\<close>
  there, but the header says that with dynamic jitter buffers off
  \<open>_desiredJitterBufferFrames\<close> is always \<open>_staticDesiredJitterBufferFrames\<close>, and the header
  is the code. The two agree whenever the static value lies in the interval of the clamp.
  The candidate is the estimator
  output that the getter of the header selects. The reduction reading (the maximal time
  gap of the reduction window, in frames) comes from an aggregator outside the sources;
  it is an argument, present on the per-second tick and absent on the growth branch that
  \<open>parseData\<close> and a starve take.
\<close>

definition DepthPolicy :: "int option \<Rightarrow> nat \<Rightarrow> InboundAudioStream \<Rightarrow> InboundAudioStream" where
  "DepthPolicy reduction now s =
     (if \<not> dynamicJitterBuffers s
      then s\<lparr> desiredJitterBufferFrames := staticDesiredJitterBufferFrames s \<rparr>
      else
        let candidate = getCalculatedJitterBufferFrames s;
            desired =
              (if tooManyStarves now s
               then max (desiredJitterBufferFrames s)
                        (candidate + DESIRED_JITTER_BUFFER_FRAMES_PADDING)
               else
                 (case reduction of
                    None \<Rightarrow> desiredJitterBufferFrames s
                  | Some gapFrames \<Rightarrow>
                      let shrinkTo = clampDesiredJitterBufferFramesValue gapFrames s
                      in if shrinkTo < desiredJitterBufferFrames s then shrinkTo
                         else desiredJitterBufferFrames s))
        in s\<lparr> desiredJitterBufferFrames := clampDesiredJitterBufferFramesValue desired s \<rparr>)"

text \<open>
  Modelled from the spec: (4.4) recording a starve at time \<open>now\<close>. The history keeps every
  starve; the count above looks only at those inside the window.
\<close>

definition starve :: "nat \<Rightarrow> InboundAudioStream \<Rightarrow> InboundAudioStream" where
  "starve now s =
     DepthPolicy None now
       (s\<lparr> starveCount := starveCount s + 1,
           isStarved := True,
           consecutiveNotMixedCount := 0,
           starveHistory := now # starveHistory s \<rparr>)"

subsection \<open>The per-second tick\<close>

text \<open>
  Modelled from the spec: (4.3, 4.8) what the aggregators of packet time gaps and of
  frames available report at a tick. Their classes are outside the sources, so the
  readings are inputs: the max-gap estimate F and the std-dev estimate P in frames
  (rounded up, before clamping), the max gap of the reduction window in frames, and the
  time-weighted average of frames available once its window of two seconds has filled.
\<close>

record JitterReadings =
  maxGapFrames :: int
  stDevFrames :: int
  reductionMaxGapFrames :: int
  framesAvailableAverage :: "int option"

text \<open>
  Modelled from the spec: (4.8) the tick recomputes F and P (clamped, 4.3), applies the
  depth policy with its shrink rule, and refreshes \<open>currentJitterBufferFrames\<close> from the
  time-weighted average when there is one. The header declares the function; its body is
  in the implementation file.
\<close>

definition perSecondCallbackForUpdatingStats ::
  "JitterReadings \<Rightarrow> nat \<Rightarrow> InboundAudioStream \<Rightarrow> InboundAudioStream" where
  "perSecondCallbackForUpdatingStats readings now s =
     (let s1 = s\<lparr> calculatedJitterBufferFramesUsingMaxGap :=
                    clampDesiredJitterBufferFramesValue (maxGapFrames readings) s,
                  calculatedJitterBufferFramesUsingStDev :=
                    clampDesiredJitterBufferFramesValue (stDevFrames readings) s \<rparr>;
          s2 = DepthPolicy (Some (reductionMaxGapFrames readings)) now s1
      in case framesAvailableAverage readings of
           None \<Rightarrow> s2
         | Some average \<Rightarrow> s2\<lparr> currentJitterBufferFrames := average \<rparr>)"

subsection \<open>Reset operations\<close>

text \<open>
  Modelled from the spec: (4.7) \<open>setToStarved\<close> forces \<open>isStarved\<close>; \<open>clearBuffer\<close> drops all
  frames without resetting stats; \<open>resetStats\<close> puts the counters of the stream back to
  zero; \<open>reset\<close> is clear buffer, reset stats and resync. The spec counts an unreasonable
  packet ``as such'' although it resets the stream, so the counters of the sequence-number
  tracker stay; the baseline that a resync forgets is inside the tracker, outside the
  model.
\<close>

definition setToStarved :: "InboundAudioStream \<Rightarrow> InboundAudioStream" where
  "setToStarved s = s\<lparr> isStarved := True \<rparr>"

definition clearBuffer :: "InboundAudioStream \<Rightarrow> InboundAudioStream" where
  "clearBuffer s = s\<lparr> ringBuffer := clear (ringBuffer s) \<rparr>"

definition resetStats :: "InboundAudioStream \<Rightarrow> InboundAudioStream" where
  "resetStats s =
     s\<lparr> consecutiveNotMixedCount := 0,
         starveCount := 0,
         silentFramesDropped := 0,
         oldFramesDropped := 0 \<rparr>"

definition reset :: "InboundAudioStream \<Rightarrow> InboundAudioStream" where
  "reset s = resetStats (clearBuffer s)"

subsection \<open>Receiving a packet\<close>

text \<open>
  Modelled from the spec: (4.2, 4.6, 6) a packet as \<open>parseData\<close> sees it once the collaborators
  that the spec keeps external have done their part. The header parser gives the size of
  the header; the sequence tracker gives the classification of the sequence number; the
  subclass's \<open>parseStreamProperties\<close> gives the size of the stream properties and the
  number of audio samples, or fails on a malformed payload; the clock gives the arrival
  time in microseconds.
\<close>

datatype ArrivalStatus = ONTIME | EARLY nat | LATE nat | DUPLICATE | UNREASONABLE

datatype ParseError = MalformedPayload

record Packet =
  headerBytes :: nat
  arrival :: ArrivalStatus
  streamProperties :: "ParseError + nat \<times> nat"
  arrivalTime :: nat

text \<open>
  Modelled from the spec: (4.2) the tracker counts every packet as received and counts it
  under its class; the sequence numbers that an early packet skips are counted as lost.
\<close>

fun sequenceNumberReceived :: "ArrivalStatus \<Rightarrow> SequenceNumberStats \<Rightarrow> SequenceNumberStats" where
  "sequenceNumberReceived ONTIME st = st\<lparr> received := received st + 1 \<rparr>"
| "sequenceNumberReceived (EARLY gap) st =
     st\<lparr> received := received st + 1, early := early st + 1, lost := lost st + int gap \<rparr>"
| "sequenceNumberReceived (LATE offset) st =
     st\<lparr> received := received st + 1, late := late st + 1 \<rparr>"
| "sequenceNumberReceived DUPLICATE st =
     st\<lparr> received := received st + 1, duplicate := duplicate st + 1 \<rparr>"
| "sequenceNumberReceived UNREASONABLE st =
     st\<lparr> received := received st + 1, unreasonable := unreasonable st + 1 \<rparr>"

text \<open>
  Modelled from the spec: (4.6, loss fill) with \<open>framesAvailable \<ge> currentJitterBufferFrames\<close>
  the silent samples are dropped and accounted in \<open>silentFramesDropped\<close>; otherwise all of
  them are written. The result carries the number of samples written.
\<close>

definition writeDroppableSilentSamples ::
  "nat \<Rightarrow> InboundAudioStream \<Rightarrow> error + int \<times> InboundAudioStream" where
  "writeDroppableSilentSamples numSilentSamples s =
     (case framesAvailable (ringBuffer s) of
        Inl e \<Rightarrow> Inl e
      | Inr available \<Rightarrow>
          if currentJitterBufferFrames s \<le> available
          then Inr (0, s\<lparr> silentFramesDropped := silentFramesDropped s + int numSilentSamples \<rparr>)
          else Inr (int numSilentSamples,
                    s\<lparr> ringBuffer := writeSamples numSilentSamples (ringBuffer s) \<rparr>))"

definition writeSamplesForDroppedPackets ::
  "nat \<Rightarrow> InboundAudioStream \<Rightarrow> error + int \<times> InboundAudioStream" where
  "writeSamplesForDroppedPackets numSamples s = writeDroppableSilentSamples numSamples s"

text \<open>
  Modelled from the spec: (6) the default \<open>parseAudioData\<close> copies \<open>numAudioSamples\<close>
  samples of 16 bits into the ring; the result carries the bytes read.
\<close>

definition parseAudioData :: "nat \<Rightarrow> InboundAudioStream \<Rightarrow> int \<times> InboundAudioStream" where
  "parseAudioData numAudioSamples s =
     (int (2 * numAudioSamples), s\<lparr> ringBuffer := writeSamples numAudioSamples (ringBuffer s) \<rparr>)"

text \<open>
  Modelled from the spec: (4.6) feeding the jitter estimator with the arrival time gap.
  The aggregators are outside the model; what stays in the stream is the arrival time.
\<close>

definition packetReceivedUpdateTimingStats :: "nat \<Rightarrow> InboundAudioStream \<Rightarrow> InboundAudioStream" where
  "packetReceivedUpdateTimingStats now s = s\<lparr> lastPacketReceivedTime := now \<rparr>"

text \<open>
  Modelled from the spec: (4.6, steps 7 and 8; 4.4) a ring that exceeds
  \<open>desiredFrames + maxFramesOverDesired\<close> loses its oldest frames until it is at
  \<open>desiredFrames\<close> (it cannot lose more frames than it holds), and \<open>oldFramesDropped\<close>
  counts them; \<open>isStarved\<close> clears when \<open>framesAvailable \<ge> desiredFrames\<close>.
\<close>

definition dropOldFrames :: "InboundAudioStream \<Rightarrow> error + InboundAudioStream" where
  "dropOldFrames s =
     (case framesAvailable (ringBuffer s) of
        Inl e \<Rightarrow> Inl e
      | Inr available \<Rightarrow>
          if desiredJitterBufferFrames s + maxFramesOverDesired s < available
          then
            let framesToDrop = min (nat available) (nat (available - desiredJitterBufferFrames s))
            in Inr (s\<lparr> ringBuffer :=
                         shiftReadPosition (framesToDrop * numFrameSamples (ringBuffer s))
                           (ringBuffer s),
                       oldFramesDropped := oldFramesDropped s + int framesToDrop \<rparr>)
          else Inr s)"

definition updateIsStarved :: "InboundAudioStream \<Rightarrow> error + InboundAudioStream" where
  "updateIsStarved s =
     (case framesAvailable (ringBuffer s) of
        Inl e \<Rightarrow> Inl e
      | Inr available \<Rightarrow>
          if isStarved s \<and> desiredJitterBufferFrames s \<le> available
          then Inr (s\<lparr> isStarved := False \<rparr>)
          else Inr s)"

text \<open>
  Modelled from the spec: (4.6, steps 7 and 8) what follows every packet that is not unreasonable.
  \<open>hasStarted\<close> is set by the first successful pop (3), and the time-weighted average
  that step 8 feeds is outside the model, so the two steps that remain are the drop of
  old frames and the update of \<open>isStarved\<close>.
\<close>

definition afterPacket :: "int \<Rightarrow> InboundAudioStream \<Rightarrow> error + int \<times> InboundAudioStream" where
  "afterPacket readBytes s =
     (case dropOldFrames s of
        Inl e \<Rightarrow> Inl e
      | Inr s1 \<Rightarrow>
          (case updateIsStarved s1 of
             Inl e \<Rightarrow> Inl e
           | Inr s2 \<Rightarrow> Inr (readBytes, s2)))"

text \<open>
  Modelled from the spec: (4.6, step 6) an on-time packet, or an early one that comes
  \<open>gap\<close> packets after the expected one. A malformed payload returns the bytes consumed
  so far and leaves the stream as it is.
\<close>

definition parseOnTimeOrEarly ::
  "nat \<Rightarrow> Packet \<Rightarrow> InboundAudioStream \<Rightarrow> error + int \<times> InboundAudioStream" where
  "parseOnTimeOrEarly gap packet s =
     (case streamProperties packet of
        Inl malformed \<Rightarrow> Inr (int (headerBytes packet), s)
      | Inr (propertyBytes, numAudioSamples) \<Rightarrow>
          (case (if gap = 0 then Inr (0, s)
                 else writeSamplesForDroppedPackets (gap * numAudioSamples) s) of
             Inl e \<Rightarrow> Inl e
           | Inr (written, s1) \<Rightarrow>
               let (audioBytes, s2) = parseAudioData numAudioSamples s1;
                   s3 = packetReceivedUpdateTimingStats (arrivalTime packet) s2;
                   s4 = DepthPolicy None (arrivalTime packet) s3
               in afterPacket (int (headerBytes packet) + int propertyBytes + audioBytes) s4))"

text \<open>
  Modelled from the spec: (4.6) \<open>parseData\<close>. An unreasonable sequence number resets the
  stream; a duplicate is counted and discarded; a late packet is counted, and neither of
  the two late-write policies that the spec leaves open moves a cursor of the ring.
\<close>

definition parseData :: "Packet \<Rightarrow> InboundAudioStream \<Rightarrow> error + int \<times> InboundAudioStream" where
  "parseData packet s =
     (let s1 = s\<lparr> incomingSequenceNumberStats :=
                    sequenceNumberReceived (arrival packet) (incomingSequenceNumberStats s) \<rparr>
      in case arrival packet of
           UNREASONABLE \<Rightarrow> Inr (int (headerBytes packet), reset s1)
         | DUPLICATE \<Rightarrow> afterPacket (int (headerBytes packet)) s1
         | LATE offset \<Rightarrow> afterPacket (int (headerBytes packet)) s1
         | ONTIME \<Rightarrow> parseOnTimeOrEarly 0 packet s1
         | EARLY gap \<Rightarrow> parseOnTimeOrEarly gap packet s1)"

subsection \<open>Consumer operations\<close>

text \<open>
  Modelled from the spec: (4.7) \<open>popFrames\<close>. With \<open>allOrNothing\<close> and too few frames the pop
  is of zero frames; otherwise of \<open>min(maxFrames, framesAvailable)\<close>. A pop of zero frames
  records a starve when \<open>starveIfNoFramesPopped\<close> is set. The request is a number of
  frames, a natural; \<open>now\<close> is the time of the call, for the starve history.
\<close>

definition popFrames ::
  "nat \<Rightarrow> bool \<Rightarrow> bool \<Rightarrow> nat \<Rightarrow> InboundAudioStream \<Rightarrow> error + int \<times> InboundAudioStream" where
  "popFrames maxFrames allOrNothing starveIfNoFramesPopped now s =
     (case framesAvailable (ringBuffer s) of
        Inl e \<Rightarrow> Inl e
      | Inr available \<Rightarrow>
          let framesToPop =
                (if allOrNothing \<and> available < int maxFrames then 0
                 else min maxFrames (nat available))
          in if framesToPop = 0
             then Inr (0, (if starveIfNoFramesPopped then starve now else id)
                            (s\<lparr> lastPopSucceeded := False \<rparr>))
             else Inr (int framesToPop,
                       s\<lparr> ringBuffer :=
                            shiftReadPosition (framesToPop * numFrameSamples (ringBuffer s))
                              (ringBuffer s),
                          lastPopSucceeded := True,
                          lastPopOutput := readCursor (ringBuffer s),
                          hasStarted := True \<rparr>))"

text \<open>Modelled from the spec: (4.7) \<open>popSamples\<close>, the analog at the granularity of samples.\<close>

definition popSamples ::
  "nat \<Rightarrow> bool \<Rightarrow> bool \<Rightarrow> nat \<Rightarrow> InboundAudioStream \<Rightarrow> int \<times> InboundAudioStream" where
  "popSamples maxSamples allOrNothing starveIfNoSamplesPopped now s =
     (let available = samplesAvailable (ringBuffer s);
          samplesToPop =
            (if allOrNothing \<and> available < maxSamples then 0 else min maxSamples available)
      in if samplesToPop = 0
         then (0, (if starveIfNoSamplesPopped then starve now else id)
                    (s\<lparr> lastPopSucceeded := False \<rparr>))
         else (int samplesToPop,
               s\<lparr> ringBuffer := shiftReadPosition samplesToPop (ringBuffer s),
                  lastPopSucceeded := True,
                  lastPopOutput := readCursor (ringBuffer s),
                  hasStarted := True \<rparr>))"

subsection \<open>Sequences of operations\<close>

text \<open>
  The operations of the stream that the model has: the producer's \<open>parseData\<close>, the
  consumer's pops and \<open>setToStarved\<close>, the timer's tick, the resets and the three inline
  setters. The setters that the header only declares (\<open>setSettings\<close>,
  \<open>setDynamicJitterBuffers\<close>, \<open>setStaticDesiredJitterBufferFrames\<close> and the two window
  setters) have their bodies in the implementation file, and the spec says of them only
  that they mirror the settings; they are not among the operations. \<open>step\<close> keeps the
  stream that an operation leaves and drops the number it returns; \<open>run\<close> stops at the
  first operation that fails.
\<close>

datatype Operation =
    ParseData Packet
  | PopFrames nat bool bool nat
  | PopSamples nat bool bool nat
  | Tick JitterReadings nat
  | SetToStarved
  | ClearBuffer
  | Reset
  | ResetStats
  | SetMaxFramesOverDesired int
  | SetUseStDevForJitterCalc bool
  | SetWindowStarveThreshold int

fun step :: "Operation \<Rightarrow> InboundAudioStream \<Rightarrow> error + InboundAudioStream" where
  "step (ParseData packet) s = map_sum id snd (parseData packet s)"
| "step (PopFrames maxFrames allOrNothing starveIfNone now) s =
     map_sum id snd (popFrames maxFrames allOrNothing starveIfNone now s)"
| "step (PopSamples maxSamples allOrNothing starveIfNone now) s =
     Inr (snd (popSamples maxSamples allOrNothing starveIfNone now s))"
| "step (Tick readings now) s = Inr (perSecondCallbackForUpdatingStats readings now s)"
| "step SetToStarved s = Inr (setToStarved s)"
| "step ClearBuffer s = Inr (clearBuffer s)"
| "step Reset s = Inr (reset s)"
| "step ResetStats s = Inr (resetStats s)"
| "step (SetMaxFramesOverDesired v) s = Inr (setMaxFramesOverDesired v s)"
| "step (SetUseStDevForJitterCalc b) s = Inr (setUseStDevForJitterCalc b s)"
| "step (SetWindowStarveThreshold v) s = Inr (setWindowStarveThreshold v s)"

fun run :: "Operation list \<Rightarrow> InboundAudioStream \<Rightarrow> error + InboundAudioStream" where
  "run [] s = Inr s"
| "run (operation # operations) s =
     (case step operation s of
        Inl e \<Rightarrow> Inl e
      | Inr s' \<Rightarrow> run operations s')"

subsection \<open>Predicates used in the statements\<close>

text \<open>The ring holds a whole number of samples between its cursors, within its capacity.\<close>

definition ringInvariant :: "AudioRingBuffer \<Rightarrow> bool" where
  "ringInvariant r =
     (0 < numFrameSamples r \<and> readCursor r \<le> writeCursor r \<and>
      samplesAvailable r \<le> sampleCapacity r)"

text \<open>The interval of the spec for \<open>desiredFrames\<close> and for the estimator outputs.\<close>

definition inDesiredRange :: "int \<Rightarrow> 'z InboundAudioStream_scheme \<Rightarrow> bool" where
  "inDesiredRange frames s =
     (0 \<le> frames \<and> frames \<le> getFrameCapacity s - getMaxFramesOverDesired s)"




text \<open>A value that the clamp of the stream leaves as it is.\<close>

definition isClamped :: "int \<Rightarrow> 'z InboundAudioStream_scheme \<Rightarrow> bool" where
  "isClamped frames s = (clampDesiredJitterBufferFramesValue frames s = frames)"



text \<open>In static mode \<open>desiredFrames\<close> is the static value.\<close>

definition staticPinned :: "InboundAudioStream \<Rightarrow> bool" where
  "staticPinned s = (getDesiredJitterBufferFrames s = staticDesiredJitterBufferFrames s)"

text \<open>
  Relations between the stream before and after a piece of an operation: the geometry of
  the ring, the settings that the clamp and the depth policy read and the estimator
  outputs stay; the five counters of the spec do not decrease; \<open>desiredFrames\<close> stays or
  is a fresh output of the depth policy.
\<close>

definition settingsKept :: "InboundAudioStream \<Rightarrow> InboundAudioStream \<Rightarrow> bool" where
  "settingsKept s s' =
     (numFrameSamples (ringBuffer s') = numFrameSamples (ringBuffer s) \<and>
      frameCapacity (ringBuffer s') = frameCapacity (ringBuffer s) \<and>
      maxFramesOverDesired s' = maxFramesOverDesired s \<and>
      dynamicJitterBuffers s' = dynamicJitterBuffers s \<and>
      staticDesiredJitterBufferFrames s' = staticDesiredJitterBufferFrames s \<and>
      calculatedJitterBufferFramesUsingMaxGap s' = calculatedJitterBufferFramesUsingMaxGap s \<and>
      calculatedJitterBufferFramesUsingStDev s' = calculatedJitterBufferFramesUsingStDev s)"

definition countersGrow :: "InboundAudioStream \<Rightarrow> InboundAudioStream \<Rightarrow> bool" where
  "countersGrow s s' =
     (getPacketsReceived s \<le> getPacketsReceived s' \<and>
      getStarveCount s \<le> getStarveCount s' \<and>
      getOverflowCount s \<le> getOverflowCount s' \<and>
      getSilentFramesDropped s \<le> getSilentFramesDropped s' \<and>
      oldFramesDropped s \<le> oldFramesDropped s')"

definition desiredKept :: "InboundAudioStream \<Rightarrow> InboundAudioStream \<Rightarrow> bool" where
  "desiredKept s s' =
     (desiredJitterBufferFrames s' = desiredJitterBufferFrames s \<or>
      (if dynamicJitterBuffers s' then isClamped (desiredJitterBufferFrames s') s'
       else staticPinned s'))"

definition evolves :: "InboundAudioStream \<Rightarrow> InboundAudioStream \<Rightarrow> bool" where
  "evolves s s' =
     (settingsKept s s' \<and> countersGrow s s' \<and> desiredKept s s' \<and>
      incomingSequenceNumberStats s' = incomingSequenceNumberStats s)"

text \<open>
  What the getters of the header show of the derived state of the stream: the target
  depth, the frames in the ring, the flags and the counters.
\<close>

definition derivedState ::
  "'z InboundAudioStream_scheme \<Rightarrow>
     int \<times> (error + int) \<times> bool \<times> bool \<times> bool \<times> int \<times> int \<times> int \<times> int \<times> int" where
  "derivedState s =
     (getDesiredJitterBufferFrames s, getFramesAvailable s, isStarved s, hasStarted s,
      lastPopSucceeded s, getConsecutiveNotMixedCount s, getStarveCount s,
      getSilentFramesDropped s, getOverflowCount s, getPacketsReceived s)"

text \<open>Concrete inputs for the instances below.\<close>

definition examplePacket :: "ArrivalStatus \<Rightarrow> Packet" where
  "examplePacket status =
     \<lparr> headerBytes = 3, arrival = status, streamProperties = Inr (4, 240),
       arrivalTime = 20000 \<rparr>"

definition exampleReadings :: JitterReadings where
  "exampleReadings =
     \<lparr> maxGapFrames = 5, stDevFrames = 2, reductionMaxGapFrames = 3,
       framesAvailableAverage = Some 2 \<rparr>"

definition freshStream :: "Settings \<Rightarrow> InboundAudioStream" where
  "freshStream settings = projr (InboundAudioStream_ctor 240 100 settings)"

definition staticSettings :: Settings where
  "staticSettings = Settings_7 10 False 95 False 3 50 10"

text \<open>
  A stream that has starved once, has dropped the silent samples of one lost packet and,
  with no frames allowed over desired, has dropped two old frames.
\<close>

definition countedStream :: InboundAudioStream where
  "countedStream =
     projr (run [PopFrames 1 True True 0, ParseData (examplePacket (EARLY 1)),
                 SetMaxFramesOverDesired 0, ParseData (examplePacket ONTIME)]
              (freshStream Settings_0))"

text \<open>A stream in the middle of its life, for the concrete instances below.\<close>

definition exampleStream :: InboundAudioStream where
  "exampleStream =
     \<lparr> ringBuffer =
         \<lparr> numFrameSamples = 240, frameCapacity = 100,
           readCursor = 480, writeCursor = 1200, overflowCount = 0 \<rparr>,
       lastPopSucceeded = True,
       lastPopOutput = 240,
       dynamicJitterBuffers = True,
       staticDesiredJitterBufferFrames = 1,
       useStDevForJitterCalc = False,
       desiredJitterBufferFrames = 3,
       maxFramesOverDesired = 10,
       isStarved = False,
       hasStarted = True,
       consecutiveNotMixedCount = 0,
       starveCount = 2,
       silentFramesDropped = 0,
       oldFramesDropped = 0,
       incomingSequenceNumberStats =
         \<lparr> received = 5, unreasonable = 0, early = 0, late = 0, lost = 0, duplicate = 0 \<rparr>,
       lastPacketReceivedTime = 100000,
       calculatedJitterBufferFramesUsingMaxGap = 4,
       calculatedJitterBufferFramesUsingStDev = 7,
       starveHistoryWindowSeconds = 50,
       starveHistory = [90000, 40000],
       starveThreshold = 3,
       currentJitterBufferFrames = 3 \<rparr>"

text \<open>The equations that evaluate the model on a concrete input.\<close>

lemmas model_defs =
  freshStream_def InboundAudioStream_ctor_def staticSettings_def Settings_7_def Settings_0_def
  DEFAULT_MAX_FRAMES_OVER_DESIRED_def DEFAULT_DYNAMIC_JITTER_BUFFERS_def
  DEFAULT_STATIC_DESIRED_JITTER_BUFFER_FRAMES_def DEFAULT_USE_STDEV_FOR_JITTER_CALC_def
  DEFAULT_WINDOW_STARVE_THRESHOLD_def DEFAULT_WINDOW_SECONDS_FOR_DESIRED_CALC_ON_TOO_MANY_STARVES_def
  DEFAULT_WINDOW_SECONDS_FOR_DESIRED_REDUCTION_def DESIRED_JITTER_BUFFER_FRAMES_PADDING_def
  USECS_PER_SECOND_def examplePacket_def exampleReadings_def exampleStream_def
  countedStream_def
  parseData_def parseOnTimeOrEarly_def afterPacket_def dropOldFrames_def updateIsStarved_def
  writeSamplesForDroppedPackets_def writeDroppableSilentSamples_def parseAudioData_def
  packetReceivedUpdateTimingStats_def DepthPolicy_def starve_def popFrames_def popSamples_def
  perSecondCallbackForUpdatingStats_def tooManyStarves_def countOfStarvesInWindow_def
  clampDesiredJitterBufferFramesValue_def
  setToStarved_def clearBuffer_def reset_def resetStats_def setMaxFramesOverDesired_def
  setUseStDevForJitterCalc_def setWindowStarveThreshold_def
  writeSamples_def shiftReadPosition_def clear_def framesAvailable_def samplesAvailable_def
  sampleCapacity_def inDesiredRange_def
  getCalculatedJitterBufferFrames_def getCalculatedJitterBufferFramesUsingStDev_def
  getCalculatedJitterBufferFramesUsingMaxGap_def getDesiredJitterBufferFrames_def
  getMaxFramesOverDesired_def getNumFrameSamples_def getFrameCapacity_def getFramesAvailable_def
  getConsecutiveNotMixedCount_def getStarveCount_def getSilentFramesDropped_def
  getOverflowCount_def getPacketsReceived_def Let_def

section \<open>Settings\<close>

text \<open>
  C1. In the constructor of \<^verbatim>\<open>Settings\<close> with seven parameters, the reduction window of the
  constructed object is the sixth argument (the window for the calculation on too many
  starves), for every tuple of arguments, and the seventh argument has no effect on the
  constructed object.
\<close>

theorem Settings_7_reduction_window_is_sixth_argument:
  "windowSecondsForDesiredReduction (Settings_7 a b c d e f g) = f \<and>
   Settings_7 a b c d e f g = Settings_7 a b c d e f g'"
  by (simp add: Settings_7_def)

text \<open>
  C6. A default-constructed \<^verbatim>\<open>Settings\<close> object has \<open>maxFramesOverDesired = 10\<close>,
  \<open>dynamicJitterBuffers = true\<close>, \<open>staticDesiredJitterBufferFrames = 1\<close>,
  \<open>useStDevForJitterCalc = false\<close>, \<open>windowStarveThreshold = 3\<close>,
  \<open>windowSecondsForDesiredCalcOnTooManyStarves = 50\<close> and
  \<open>windowSecondsForDesiredReduction = 10\<close>.
\<close>

theorem Settings_0_defaults:
  "Settings.maxFramesOverDesired Settings_0 = 10 \<and>
   Settings.dynamicJitterBuffers Settings_0 = True \<and>
   Settings.staticDesiredJitterBufferFrames Settings_0 = 1 \<and>
   Settings.useStDevForJitterCalc Settings_0 = False \<and>
   windowStarveThreshold Settings_0 = 3 \<and>
   windowSecondsForDesiredCalcOnTooManyStarves Settings_0 = 50 \<and>
   windowSecondsForDesiredReduction Settings_0 = 10"
  by (simp add: Settings_0_def DEFAULT_MAX_FRAMES_OVER_DESIRED_def
        DEFAULT_DYNAMIC_JITTER_BUFFERS_def DEFAULT_STATIC_DESIRED_JITTER_BUFFER_FRAMES_def
        DEFAULT_USE_STDEV_FOR_JITTER_CALC_def DEFAULT_WINDOW_STARVE_THRESHOLD_def
        DEFAULT_WINDOW_SECONDS_FOR_DESIRED_CALC_ON_TOO_MANY_STARVES_def
        DEFAULT_WINDOW_SECONDS_FOR_DESIRED_REDUCTION_def)

section \<open>Inline getters and setters\<close>

text \<open>
  C5. The calculated jitter-buffer depth that \<open>getCalculatedJitterBufferFrames\<close> returns is
  the std-dev estimate (Philip's method) when \<open>useStDevForJitterCalc\<close> is true and the
  max-gap estimate (Freddy's method) when it is false, in every state of the stream.
\<close>

theorem getCalculatedJitterBufferFrames_selects:
  "(useStDevForJitterCalc s \<longrightarrow>
      getCalculatedJitterBufferFrames s = getCalculatedJitterBufferFramesUsingStDev s) \<and>
   (\<not> useStDevForJitterCalc s \<longrightarrow>
      getCalculatedJitterBufferFrames s = getCalculatedJitterBufferFramesUsingMaxGap s)"
  by (simp add: getCalculatedJitterBufferFrames_def getCalculatedJitterBufferFramesUsingStDev_def
        getCalculatedJitterBufferFramesUsingMaxGap_def)

theorem getCalculatedJitterBufferFrames_selects_witness:
  "getCalculatedJitterBufferFrames exampleStream = 4 \<and>
   getCalculatedJitterBufferFrames (setUseStDevForJitterCalc True exampleStream) = 7"
  using getCalculatedJitterBufferFrames_selects [of exampleStream]
    getCalculatedJitterBufferFrames_selects [of "setUseStDevForJitterCalc True exampleStream"]
  by (simp add: exampleStream_def setUseStDevForJitterCalc_def
        getCalculatedJitterBufferFramesUsingStDev_def
        getCalculatedJitterBufferFramesUsingMaxGap_def)

text \<open>
  C10. Each of the inline setters \<open>setMaxFramesOverDesired\<close>, \<open>setUseStDevForJitterCalc\<close>
  and \<open>setWindowStarveThreshold\<close> stores its argument in one member, at once and whatever
  the value (zero and negative integers included, with no clamping), and leaves every
  other member of the stream as it was: putting the old value of that member back gives
  the stream before the call.
\<close>

theorem inline_setters_store_one_member:
  "maxFramesOverDesired (setMaxFramesOverDesired v s) = v \<and>
   (setMaxFramesOverDesired v s)\<lparr> maxFramesOverDesired := maxFramesOverDesired s \<rparr> = s \<and>
   useStDevForJitterCalc (setUseStDevForJitterCalc b s) = b \<and>
   (setUseStDevForJitterCalc b s)\<lparr> useStDevForJitterCalc := useStDevForJitterCalc s \<rparr> = s \<and>
   starveThreshold (setWindowStarveThreshold w s) = w \<and>
   (setWindowStarveThreshold w s)\<lparr> starveThreshold := starveThreshold s \<rparr> = s"
  by (simp add: setMaxFramesOverDesired_def setUseStDevForJitterCalc_def
        setWindowStarveThreshold_def)

text \<open>
  C7 (as amended). A call of an inline setter takes effect at once on the setting that it
  stores: \<open>getMaxFramesOverDesired\<close> returns the new value right after
  \<open>setMaxFramesOverDesired\<close>, and \<open>getCalculatedJitterBufferFrames\<close> follows the new flag
  right after \<open>setUseStDevForJitterCalc\<close>. What a call of one of the three inline setters
  leaves as it was is the derived state of the stream: the desired depth, the frames
  available, the starve flags and the counters move only with later operations.
\<close>

theorem inline_setters_and_getters:
  "getMaxFramesOverDesired (setMaxFramesOverDesired v s) = v \<and>
   getCalculatedJitterBufferFrames (setUseStDevForJitterCalc b s) =
     (if b then getCalculatedJitterBufferFramesUsingStDev s
      else getCalculatedJitterBufferFramesUsingMaxGap s) \<and>
   derivedState (setMaxFramesOverDesired v s) = derivedState s \<and>
   derivedState (setUseStDevForJitterCalc b s) = derivedState s \<and>
   derivedState (setWindowStarveThreshold w s) = derivedState s"
  by (simp add: derivedState_def setMaxFramesOverDesired_def setUseStDevForJitterCalc_def
        setWindowStarveThreshold_def getMaxFramesOverDesired_def
        getCalculatedJitterBufferFrames_def getCalculatedJitterBufferFramesUsingStDev_def
        getCalculatedJitterBufferFramesUsingMaxGap_def getDesiredJitterBufferFrames_def
        getFramesAvailable_def getConsecutiveNotMixedCount_def getStarveCount_def
        getSilentFramesDropped_def getOverflowCount_def getPacketsReceived_def)

text \<open>
  The claim as stated, that a change of a setting has no observable effect until the next
  tick, fails on the inline setters: the getter shows the new maximum of frames over
  desired, and the selected estimate changes, with no tick or other operation in between.
\<close>

theorem settings_take_effect_at_once_counterexample:
  "getMaxFramesOverDesired (freshStream Settings_0) = 10 \<and>
   getMaxFramesOverDesired (setMaxFramesOverDesired 5 (freshStream Settings_0)) = 5 \<and>
   \<not> isl (run [Tick exampleReadings 0] (freshStream Settings_0)) \<and>
   getCalculatedJitterBufferFrames
     (projr (run [Tick exampleReadings 0] (freshStream Settings_0))) = 5 \<and>
   getCalculatedJitterBufferFrames
     (setUseStDevForJitterCalc True
        (projr (run [Tick exampleReadings 0] (freshStream Settings_0)))) = 2"
  by (simp add: model_defs)

section \<open>How the operations move the stream\<close>

lemmas getter_defs = getPacketsReceived_def getStarveCount_def getOverflowCount_def
  getSilentFramesDropped_def getDesiredJitterBufferFrames_def getFrameCapacity_def
  getMaxFramesOverDesired_def

lemma clamp_idem: "isClamped (clampDesiredJitterBufferFramesValue v s) s"
  by (simp add: isClamped_def clampDesiredJitterBufferFramesValue_def min_def max_def)

lemma clamp_cong:
  "frameCapacity (ringBuffer s') = frameCapacity (ringBuffer s) \<Longrightarrow>
   maxFramesOverDesired s' = maxFramesOverDesired s \<Longrightarrow>
   clampDesiredJitterBufferFramesValue v s' = clampDesiredJitterBufferFramesValue v s"
  by (simp add: clampDesiredJitterBufferFramesValue_def getFrameCapacity_def)


lemma evolves_refl: "evolves s s"
  by (simp add: evolves_def settingsKept_def countersGrow_def desiredKept_def)

lemma evolves_trans:
  assumes "evolves s s'" and "evolves s' s''"
  shows "evolves s s''"
proof -
  have k: "settingsKept s s''"
    using assms by (simp add: evolves_def settingsKept_def)
  have c: "countersGrow s s''"
    using assms by (auto simp: evolves_def countersGrow_def)
  have d: "desiredKept s s''"
  proof (cases "desiredJitterBufferFrames s'' = desiredJitterBufferFrames s'")
    case True
    have cl: "clampDesiredJitterBufferFramesValue v s'' = clampDesiredJitterBufferFramesValue v s'" for v
      using assms(2) by (intro clamp_cong) (simp_all add: evolves_def settingsKept_def)
    from True assms show ?thesis
      by (auto simp: evolves_def desiredKept_def isClamped_def staticPinned_def settingsKept_def
            getDesiredJitterBufferFrames_def cl split: if_splits)
  next
    case False
    with assms(2) show ?thesis
      by (auto simp: evolves_def desiredKept_def)
  qed
  have t: "incomingSequenceNumberStats s'' = incomingSequenceNumberStats s"
    using assms by (simp add: evolves_def)
  from k c d t show ?thesis by (simp add: evolves_def)
qed

lemma DepthPolicy_fields:
  "ringBuffer (DepthPolicy red now s) = ringBuffer s"
  "maxFramesOverDesired (DepthPolicy red now s) = maxFramesOverDesired s"
  "dynamicJitterBuffers (DepthPolicy red now s) = dynamicJitterBuffers s"
  "staticDesiredJitterBufferFrames (DepthPolicy red now s) = staticDesiredJitterBufferFrames s"
  "calculatedJitterBufferFramesUsingMaxGap (DepthPolicy red now s) = calculatedJitterBufferFramesUsingMaxGap s"
  "calculatedJitterBufferFramesUsingStDev (DepthPolicy red now s) = calculatedJitterBufferFramesUsingStDev s"
  "incomingSequenceNumberStats (DepthPolicy red now s) = incomingSequenceNumberStats s"
  "starveCount (DepthPolicy red now s) = starveCount s"
  "silentFramesDropped (DepthPolicy red now s) = silentFramesDropped s"
  "oldFramesDropped (DepthPolicy red now s) = oldFramesDropped s"
  by (simp_all add: DepthPolicy_def Let_def)

lemma DepthPolicy_desired:
  "(if dynamicJitterBuffers s
    then isClamped (desiredJitterBufferFrames (DepthPolicy red now s)) (DepthPolicy red now s)
    else staticPinned (DepthPolicy red now s))"
proof (cases "dynamicJitterBuffers s")
  case True
  have cl: "clampDesiredJitterBufferFramesValue v (DepthPolicy red now s) =
            clampDesiredJitterBufferFramesValue v s" for v
    by (rule clamp_cong) (simp_all add: DepthPolicy_fields)
  have "isClamped (desiredJitterBufferFrames (DepthPolicy red now s)) (DepthPolicy red now s)"
    unfolding isClamped_def cl using True
    by (simp add: DepthPolicy_def Let_def clamp_idem [unfolded isClamped_def])
  with True show ?thesis by simp
next
  case False
  then show ?thesis
    by (simp add: staticPinned_def getDesiredJitterBufferFrames_def DepthPolicy_def)
qed

lemma DepthPolicy_evolves: "evolves s (DepthPolicy red now s)"
  using DepthPolicy_desired [where s = s and red = red and now = now]
  by (simp add: evolves_def settingsKept_def countersGrow_def desiredKept_def getter_defs
        DepthPolicy_fields)



lemma writeSamples_fields:
  "numFrameSamples (writeSamples n r) = numFrameSamples r"
  "frameCapacity (writeSamples n r) = frameCapacity r"
  "overflowCount r \<le> overflowCount (writeSamples n r)"
  by (simp_all add: writeSamples_def)

lemma shiftReadPosition_fields:
  "numFrameSamples (shiftReadPosition n r) = numFrameSamples r"
  "frameCapacity (shiftReadPosition n r) = frameCapacity r"
  "overflowCount (shiftReadPosition n r) = overflowCount r"
  by (simp_all add: shiftReadPosition_def)

lemmas evolves_defs = evolves_def settingsKept_def countersGrow_def desiredKept_def getter_defs

lemma writeDroppableSilentSamples_evolves:
  "writeDroppableSilentSamples n s = Inr (written, s') \<Longrightarrow> evolves s s'"
  by (auto simp: writeDroppableSilentSamples_def evolves_defs writeSamples_fields
        split: sum.splits if_splits)

lemma parseAudioData_evolves: "parseAudioData n s = (bytes, s') \<Longrightarrow> evolves s s'"
  by (auto simp: parseAudioData_def evolves_defs writeSamples_fields)

lemma packetReceivedUpdateTimingStats_evolves:
  "evolves s (packetReceivedUpdateTimingStats now s)"
  by (simp add: packetReceivedUpdateTimingStats_def evolves_defs)

lemma dropOldFrames_evolves: "dropOldFrames s = Inr s' \<Longrightarrow> evolves s s'"
  by (auto simp: dropOldFrames_def evolves_defs shiftReadPosition_fields Let_def
        split: sum.splits if_splits)

lemma updateIsStarved_evolves: "updateIsStarved s = Inr s' \<Longrightarrow> evolves s s'"
  by (auto simp: updateIsStarved_def evolves_defs split: sum.splits if_splits)

lemma afterPacket_evolves: "afterPacket bytes s = Inr (x, s') \<Longrightarrow> evolves s s'"
  by (auto simp: afterPacket_def split: sum.splits
        dest!: dropOldFrames_evolves updateIsStarved_evolves intro: evolves_trans)


lemma parseOnTimeOrEarly_evolves:
  assumes "parseOnTimeOrEarly gap packet s = Inr (x, s')"
  shows "evolves s s'"
proof (cases "streamProperties packet")
  case (Inl e)
  with assms show ?thesis by (simp add: parseOnTimeOrEarly_def evolves_refl)
next
  case (Inr props)
  obtain propertyBytes numAudioSamples where props: "props = (propertyBytes, numAudioSamples)"
    by (cases props)
  obtain written s1 where
    w: "(if gap = 0 then Inr (0, s)
         else writeSamplesForDroppedPackets (gap * numAudioSamples) s) = Inr (written, s1)"
    using assms Inr props
    by (cases "if gap = 0 then Inr (0, s)
               else writeSamplesForDroppedPackets (gap * numAudioSamples) s")
       (auto simp: parseOnTimeOrEarly_def)
  obtain audioBytes s2 where a: "parseAudioData numAudioSamples s1 = (audioBytes, s2)"
    by (cases "parseAudioData numAudioSamples s1")
  let ?s3 = "packetReceivedUpdateTimingStats (arrivalTime packet) s2"
  let ?s4 = "DepthPolicy None (arrivalTime packet) ?s3"
  have fin: "afterPacket (int (headerBytes packet) + int propertyBytes + audioBytes) ?s4 = Inr (x, s')"
    using assms Inr props w a by (simp add: parseOnTimeOrEarly_def)
  have e1: "evolves s s1"
    using w by (auto simp: writeSamplesForDroppedPackets_def evolves_refl split: if_splits
                  dest: writeDroppableSilentSamples_evolves)
  have e2: "evolves s1 s2" using a by (rule parseAudioData_evolves)
  have e3: "evolves s2 ?s3" by (rule packetReceivedUpdateTimingStats_evolves)
  have e4: "evolves ?s3 ?s4" by (rule DepthPolicy_evolves)
  have e5: "evolves ?s4 s'" using fin by (rule afterPacket_evolves)
  from e1 e2 e3 e4 e5 show ?thesis by (blast intro: evolves_trans)
qed

lemma parseData_evolves:
  assumes "parseData packet s = Inr (x, s')" and "arrival packet \<noteq> UNREASONABLE"
  shows "evolves (s\<lparr> incomingSequenceNumberStats :=
                      sequenceNumberReceived (arrival packet) (incomingSequenceNumberStats s) \<rparr>) s'"
  using assms
  by (cases "arrival packet")
     (auto simp: parseData_def Let_def dest: afterPacket_evolves parseOnTimeOrEarly_evolves)

lemma parseData_stats:
  assumes "parseData packet s = Inr (x, s')"
  shows "incomingSequenceNumberStats s' =
         sequenceNumberReceived (arrival packet) (incomingSequenceNumberStats s)"
proof (cases "arrival packet = UNREASONABLE")
  case True
  with assms show ?thesis
    by (auto simp: parseData_def Let_def reset_def resetStats_def clearBuffer_def)
next
  case False
  with assms show ?thesis by (auto dest!: parseData_evolves simp: evolves_def)
qed





lemma perSecondCallbackForUpdatingStats_fields:
  "ringBuffer (perSecondCallbackForUpdatingStats rd now s) = ringBuffer s"
  "maxFramesOverDesired (perSecondCallbackForUpdatingStats rd now s) = maxFramesOverDesired s"
  "dynamicJitterBuffers (perSecondCallbackForUpdatingStats rd now s) = dynamicJitterBuffers s"
  "staticDesiredJitterBufferFrames (perSecondCallbackForUpdatingStats rd now s) =
     staticDesiredJitterBufferFrames s"
  "incomingSequenceNumberStats (perSecondCallbackForUpdatingStats rd now s) =
     incomingSequenceNumberStats s"
  "starveCount (perSecondCallbackForUpdatingStats rd now s) = starveCount s"
  "silentFramesDropped (perSecondCallbackForUpdatingStats rd now s) = silentFramesDropped s"
  "oldFramesDropped (perSecondCallbackForUpdatingStats rd now s) = oldFramesDropped s"
  by (simp_all add: perSecondCallbackForUpdatingStats_def Let_def DepthPolicy_fields
        split: option.splits)

















subsection \<open>The ring stays well formed and no operation fails\<close>

lemma ringInvariant_writeSamples: "ringInvariant r \<Longrightarrow> ringInvariant (writeSamples n r)"
  by (auto simp: ringInvariant_def writeSamples_def samplesAvailable_def sampleCapacity_def)

lemma ringInvariant_shiftReadPosition:
  "ringInvariant r \<Longrightarrow> n \<le> samplesAvailable r \<Longrightarrow> ringInvariant (shiftReadPosition n r)"
  by (auto simp: ringInvariant_def shiftReadPosition_def samplesAvailable_def sampleCapacity_def)

lemma ringInvariant_clear: "ringInvariant r \<Longrightarrow> ringInvariant (clear r)"
  by (auto simp: ringInvariant_def clear_def samplesAvailable_def sampleCapacity_def)

lemma framesAvailable_ringInvariant:
  "ringInvariant r \<Longrightarrow>
   framesAvailable r = Inr (int (samplesAvailable r div numFrameSamples r))"
  by (simp add: ringInvariant_def framesAvailable_def)

lemma frames_times_le: "(k::nat) \<le> m div n \<Longrightarrow> k * n \<le> m"
proof -
  assume "k \<le> m div n"
  then have "k * n \<le> m div n * n" by (rule mult_le_mono1)
  also have "\<dots> \<le> m" by simp
  finally show ?thesis .
qed

lemma framesAvailable_bounds:
  assumes "ringInvariant r"
  shows "\<exists>available. framesAvailable r = Inr available \<and> 0 \<le> available \<and>
           available \<le> int (frameCapacity r)"
proof -
  have "samplesAvailable r \<le> frameCapacity r * numFrameSamples r" and "0 < numFrameSamples r"
    using assms by (simp_all add: ringInvariant_def sampleCapacity_def)
  then have "samplesAvailable r div numFrameSamples r \<le> frameCapacity r"
    using div_le_mono [of "samplesAvailable r" "frameCapacity r * numFrameSamples r"
        "numFrameSamples r"]
    by simp
  with assms show ?thesis by (simp add: framesAvailable_ringInvariant)
qed

lemma writeDroppableSilentSamples_total:
  "ringInvariant (ringBuffer s) \<Longrightarrow>
   \<exists>written s'. writeDroppableSilentSamples n s = Inr (written, s') \<and>
     ringInvariant (ringBuffer s')"
  by (simp add: writeDroppableSilentSamples_def framesAvailable_ringInvariant
        ringInvariant_writeSamples)

lemma dropOldFrames_total:
  assumes "ringInvariant (ringBuffer s)"
  shows "\<exists>s'. dropOldFrames s = Inr s' \<and> ringInvariant (ringBuffer s')"
proof -
  let ?r = "ringBuffer s"
  let ?fa = "samplesAvailable ?r div numFrameSamples ?r"
  have "min ?fa (nat (int ?fa - desiredJitterBufferFrames s)) * numFrameSamples ?r
          \<le> samplesAvailable ?r"
    by (rule frames_times_le) simp
  with assms show ?thesis
    by (simp add: dropOldFrames_def framesAvailable_ringInvariant Let_def
          ringInvariant_shiftReadPosition)
qed

lemma updateIsStarved_total:
  "ringInvariant (ringBuffer s) \<Longrightarrow>
   \<exists>s'. updateIsStarved s = Inr s' \<and> ringInvariant (ringBuffer s')"
  by (simp add: updateIsStarved_def framesAvailable_ringInvariant)

lemma afterPacket_total:
  assumes "ringInvariant (ringBuffer s)"
  shows "\<exists>s'. afterPacket bytes s = Inr (bytes, s') \<and> ringInvariant (ringBuffer s')"
proof -
  from assms obtain s1 where 1: "dropOldFrames s = Inr s1" "ringInvariant (ringBuffer s1)"
    using dropOldFrames_total by blast
  then obtain s2 where 2: "updateIsStarved s1 = Inr s2" "ringInvariant (ringBuffer s2)"
    using updateIsStarved_total by blast
  from 1 2 show ?thesis by (simp add: afterPacket_def)
qed

lemma starve_ringBuffer: "ringBuffer (starve now s) = ringBuffer s"
  by (simp add: starve_def DepthPolicy_fields)

lemma parseOnTimeOrEarly_total:
  assumes "ringInvariant (ringBuffer s)"
  shows "\<exists>bytes s'. parseOnTimeOrEarly gap packet s = Inr (bytes, s') \<and>
           ringInvariant (ringBuffer s')"
proof (cases "streamProperties packet")
  case (Inl e)
  with assms show ?thesis by (simp add: parseOnTimeOrEarly_def)
next
  case (Inr props)
  obtain propertyBytes numAudioSamples where props: "props = (propertyBytes, numAudioSamples)"
    by (cases props)
  obtain written s1 where
    w: "(if gap = 0 then Inr (0, s)
         else writeSamplesForDroppedPackets (gap * numAudioSamples) s) = Inr (written, s1)"
    and w': "ringInvariant (ringBuffer s1)"
    using assms writeDroppableSilentSamples_total [of s "gap * numAudioSamples"]
    by (cases "gap = 0") (auto simp: writeSamplesForDroppedPackets_def)
  let ?s2 = "s1\<lparr> ringBuffer := writeSamples numAudioSamples (ringBuffer s1) \<rparr>"
  let ?s4 = "DepthPolicy None (arrivalTime packet)
               (packetReceivedUpdateTimingStats (arrivalTime packet) ?s2)"
  have "ringInvariant (ringBuffer ?s4)"
    using w' by (simp add: DepthPolicy_fields packetReceivedUpdateTimingStats_def
                   ringInvariant_writeSamples)
  then obtain s' where
    "afterPacket (int (headerBytes packet) + int propertyBytes + int (2 * numAudioSamples)) ?s4 =
       Inr (int (headerBytes packet) + int propertyBytes + int (2 * numAudioSamples), s')"
    and "ringInvariant (ringBuffer s')"
    using afterPacket_total by blast
  with Inr props w show ?thesis
    by (simp add: parseOnTimeOrEarly_def parseAudioData_def)
qed

lemma parseData_total:
  assumes "ringInvariant (ringBuffer s)"
  shows "\<exists>bytes s'. parseData packet s = Inr (bytes, s') \<and> ringInvariant (ringBuffer s')"
proof -
  let ?s1 = "s\<lparr> incomingSequenceNumberStats :=
                  sequenceNumberReceived (arrival packet) (incomingSequenceNumberStats s) \<rparr>"
  have r1: "ringInvariant (ringBuffer ?s1)" using assms by simp
  have r2: "ringInvariant (ringBuffer (reset ?s1))"
    using assms by (simp add: reset_def resetStats_def clearBuffer_def ringInvariant_clear)
  note after = afterPacket_total [OF r1, of "int (headerBytes packet)"]
  show ?thesis
  proof (cases "arrival packet")
    case ONTIME
    with parseOnTimeOrEarly_total [OF r1, of 0 packet] show ?thesis
      by (auto simp: parseData_def Let_def)
  next
    case (EARLY gap)
    with parseOnTimeOrEarly_total [OF r1, of gap packet] show ?thesis
      by (auto simp: parseData_def Let_def)
  next
    case (LATE offset)
    with after show ?thesis by (auto simp: parseData_def Let_def)
  next
    case DUPLICATE
    with after show ?thesis by (auto simp: parseData_def Let_def)
  next
    case UNREASONABLE
    with r2 show ?thesis by (simp add: parseData_def Let_def)
  qed
qed

lemma popFrames_total:
  assumes "ringInvariant (ringBuffer s)"
  shows "\<exists>popped s'. popFrames maxFrames allOrNothing starveIfNone now s = Inr (popped, s') \<and>
           ringInvariant (ringBuffer s')"
proof -
  let ?r = "ringBuffer s"
  let ?fa = "samplesAvailable ?r div numFrameSamples ?r"
  have "min maxFrames ?fa * numFrameSamples ?r \<le> samplesAvailable ?r"
    by (rule frames_times_le) simp
  with assms show ?thesis
    by (simp add: popFrames_def framesAvailable_ringInvariant Let_def starve_ringBuffer
          ringInvariant_shiftReadPosition)
qed

lemma popSamples_ringInvariant:
  "ringInvariant (ringBuffer s) \<Longrightarrow>
   ringInvariant (ringBuffer (snd (popSamples maxSamples allOrNothing starveIfNone now s)))"
  by (simp add: popSamples_def Let_def starve_ringBuffer ringInvariant_shiftReadPosition)

lemma step_total:
  assumes "ringInvariant (ringBuffer s)"
  shows "\<exists>s'. step operation s = Inr s' \<and> ringInvariant (ringBuffer s')"
proof (cases operation)
  case (ParseData packet)
  with parseData_total [OF assms, of packet] show ?thesis by auto
next
  case (PopFrames m a st now)
  with popFrames_total [OF assms, of m a st now] show ?thesis by auto
next
  case (PopSamples m a st now)
  with popSamples_ringInvariant [OF assms, of m a st now] show ?thesis by simp
next
  case (Tick rd now)
  with assms show ?thesis by (simp add: perSecondCallbackForUpdatingStats_fields)
next
  case ClearBuffer
  with assms show ?thesis by (simp add: clearBuffer_def ringInvariant_clear)
next
  case Reset
  with assms show ?thesis
    by (simp add: reset_def resetStats_def clearBuffer_def ringInvariant_clear)
qed (use assms in \<open>simp_all add: setToStarved_def resetStats_def setMaxFramesOverDesired_def
       setUseStDevForJitterCalc_def setWindowStarveThreshold_def\<close>)

lemma run_total:
  "ringInvariant (ringBuffer s) \<Longrightarrow>
   \<exists>s'. run operations s = Inr s' \<and> ringInvariant (ringBuffer s')"
proof (induction operations arbitrary: s)
  case Nil
  then show ?case by simp
next
  case (Cons operation operations)
  from step_total [OF Cons.prems, of operation] obtain s1 where
    "step operation s = Inr s1" and "ringInvariant (ringBuffer s1)" by blast
  with Cons.IH [of s1] show ?case by simp
qed

lemma InboundAudioStream_ctor_ringInvariant:
  "InboundAudioStream_ctor fs cap settings = Inr s0 \<Longrightarrow> ringInvariant (ringBuffer s0)"
  by (auto simp: InboundAudioStream_ctor_def ringInvariant_def samplesAvailable_def
        split: if_splits)

section \<open>Invariants of the stream\<close>

subsection \<open>Frames available\<close>

lemma writeSamples_overflow:
  assumes "ringInvariant r" and "sampleCapacity r < samplesAvailable r + n"
  shows "readCursor (writeSamples n r) =
           readCursor r + (samplesAvailable r + n - sampleCapacity r) \<and>
         overflowCount (writeSamples n r) = overflowCount r + 1 \<and>
         samplesAvailable (writeSamples n r) = sampleCapacity r"
  using assms
  by (auto simp: writeSamples_def ringInvariant_def samplesAvailable_def)

lemma popFrames_readCursor:
  assumes "popFrames maxFrames allOrNothing starveIfNone now s = Inr (popped, s')"
  shows "readCursor (ringBuffer s') =
         readCursor (ringBuffer s) + nat popped * numFrameSamples (ringBuffer s)"
  using assms
  by (auto simp: popFrames_def Let_def starve_ringBuffer shiftReadPosition_def
        split: sum.splits if_splits)

text \<open>
  C4. From a stream that the constructor has made, every sequence of operations
  (\<open>parseData\<close> and \<open>popFrames\<close> among them) returns, and leaves \<open>framesAvailable\<close> in the
  closed interval from 0 to \<open>frameCapacity\<close>. A write beyond the capacity advances the read
  cursor by the overflowed number of samples and increments the overflow count, and the
  ring then holds exactly its capacity. A pop that returns \<open>N\<close> frames moves the read cursor
  by exactly \<open>N\<close> times the frame size.
\<close>

theorem frames_available_within_capacity:
  "(InboundAudioStream_ctor fs cap settings = Inr s0 \<longrightarrow>
      (\<exists>s' available. run operations s0 = Inr s' \<and> getFramesAvailable s' = Inr available \<and>
         0 \<le> available \<and> available \<le> getFrameCapacity s')) \<and>
   (ringInvariant r \<and> sampleCapacity r < samplesAvailable r + n \<longrightarrow>
      readCursor (writeSamples n r) =
        readCursor r + (samplesAvailable r + n - sampleCapacity r) \<and>
      overflowCount (writeSamples n r) = overflowCount r + 1 \<and>
      samplesAvailable (writeSamples n r) = sampleCapacity r) \<and>
   (popFrames maxFrames allOrNothing starveIfNone now s = Inr (popped, s1) \<longrightarrow>
      readCursor (ringBuffer s1) =
        readCursor (ringBuffer s) + nat popped * numFrameSamples (ringBuffer s))"
proof (intro conjI impI)
  assume "InboundAudioStream_ctor fs cap settings = Inr s0"
  then have "ringInvariant (ringBuffer s0)" by (rule InboundAudioStream_ctor_ringInvariant)
  then obtain s' where 1: "run operations s0 = Inr s'" and 2: "ringInvariant (ringBuffer s')"
    using run_total by blast
  from framesAvailable_bounds [OF 2] obtain available where
    "framesAvailable (ringBuffer s') = Inr available" "0 \<le> available"
    "available \<le> int (frameCapacity (ringBuffer s'))" by blast
  with 1 show "\<exists>s' available. run operations s0 = Inr s' \<and>
      getFramesAvailable s' = Inr available \<and> 0 \<le> available \<and> available \<le> getFrameCapacity s'"
    by (auto simp: getFramesAvailable_def getFrameCapacity_def)
qed (use writeSamples_overflow popFrames_readCursor in \<open>blast+\<close>)

theorem frames_available_within_capacity_witness:
  "(\<exists>s' available.
      run [ParseData (examplePacket ONTIME), ParseData (examplePacket (EARLY 1)),
           PopFrames 1 False True 30000, ParseData (examplePacket ONTIME)]
        (freshStream Settings_0) = Inr s' \<and>
      getFramesAvailable s' = Inr available \<and> 0 \<le> available \<and>
      available \<le> getFrameCapacity s') \<and>
   readCursor (writeSamples 240
     \<lparr> numFrameSamples = 240, frameCapacity = 2, readCursor = 0, writeCursor = 480,
       overflowCount = 0 \<rparr>) = 240 \<and>
   overflowCount (writeSamples 240
     \<lparr> numFrameSamples = 240, frameCapacity = 2, readCursor = 0, writeCursor = 480,
       overflowCount = 0 \<rparr>) = 1 \<and>
   samplesAvailable (writeSamples 240
     \<lparr> numFrameSamples = 240, frameCapacity = 2, readCursor = 0, writeCursor = 480,
       overflowCount = 0 \<rparr>) = 480 \<and>
   fst (projr (popFrames 2 False True 0 exampleStream)) = 2 \<and>
   readCursor (ringBuffer (snd (projr (popFrames 2 False True 0 exampleStream)))) = 960"
proof -
  let ?r = "\<lparr> numFrameSamples = 240, frameCapacity = 2, readCursor = 0, writeCursor = 480,
              overflowCount = 0 \<rparr>"
  let ?p = "projr (popFrames 2 False True 0 exampleStream)"
  have 1: "InboundAudioStream_ctor 240 100 Settings_0 = Inr (freshStream Settings_0)"
    by (simp add: model_defs)
  have 2: "ringInvariant ?r \<and> sampleCapacity ?r < samplesAvailable ?r + 240"
    by (simp add: ringInvariant_def model_defs)
  have 3: "popFrames 2 False True 0 exampleStream = Inr (fst ?p, snd ?p)"
    by (simp add: model_defs)
  have 4: "fst ?p = 2" by (simp add: model_defs)
  from frames_available_within_capacity
         [of 240 100 Settings_0 "freshStream Settings_0" _ ?r 240 2 False True 0 exampleStream
            "fst ?p" "snd ?p"]
       1 2 3 4
  show ?thesis by (simp add: model_defs)
qed

subsection \<open>Static mode\<close>







subsection \<open>The range of the desired depth\<close>







subsection \<open>Counters\<close>





end
